theory Spec2Isabelle
  imports Main
begin

section \<open>HTTP client types files: the data the generator reads\<close>

text \<open>
  The development follows \<^verbatim>\<open>http/codegen/client_types.go\<close>. The Go file reads
  descriptors built elsewhere (the service data of the HTTP code generator); their type
  declarations are not part of the file, so each record below lists the fields the file
  reads, either in \<^verbatim>\<open>clientType\<close> or in one of its templates. A Go pointer that the
  file tests against \<^verbatim>\<open>nil\<close> is an \<open>option\<close>. The results of the two lookups by
  name, which the file dereferences without a test, are options too, and \<open>None\<close> there
  is the panic of a \<^verbatim>\<open>nil\<close> dereference. The fields and list elements that the file
  reaches through a descriptor it holds are taken to be set.
\<close>

datatype error = NilDereference

text \<open>\<^verbatim>\<open>map[string]struct{}\<close>: the names of the types already generated.\<close>

type_synonym seen_names = "string \<rightharpoonup> unit"

record ImportSpec =
  ImportSpec_Path :: string
  ImportSpec_Name :: string

record InitArgData =
  InitArg_Name :: string
  TypeRef :: string
  FieldName :: string
  Pointer :: bool

record InitData =
  Init_Name :: string
  Description :: string
  ClientArgs :: "InitArgData list"
  ReturnTypeRef :: string
  ReturnTypeName :: string
  ReturnTypeAttribute :: string
  ReturnIsStruct :: bool
  ClientCode :: string

text \<open>\<^verbatim>\<open>TypeData\<close>: a body type. The file reads \<^verbatim>\<open>Def\<close>, \<^verbatim>\<open>Init\<close> and
  \<^verbatim>\<open>ValidateDef\<close>; the name is the name of the type that the section declares.\<close>

record TypeData =
  TypeData_Name :: string
  Def :: string
  Init :: "InitData option"
  ValidateDef :: string

record ViewData =
  ToResult :: string
  View :: string
  View_Ref :: string
  ToResultCode :: string

record ExpandedTypeData =
  Expanded_Name :: string
  VarName :: string
  Expanded_Ref :: string
  ResultName :: string
  ResultRef :: string
  Validate :: string
  Views :: "ViewData list"

record TransformFunctionData =
  Helper_Name :: string
  Helper_Code :: string

record RequestData =
  Request_ClientBody :: "TypeData option"

record PayloadData =
  Request :: RequestData

record ResponseData =
  Response_ClientBody :: "TypeData option"
  ResultInit :: "InitData option"

record ResultData =
  Responses :: "ResponseData list"

record ErrorData =
  Response :: ResponseData

record EndpointData =
  Payload :: PayloadData
  Result :: ResultData
  Errors :: "ErrorData list"

record service_Data =
  PkgName :: string
  Helpers :: "TransformFunctionData list"
  Service_ExpandedTypes :: "ExpandedTypeData list"

record ServiceData =
  Service :: service_Data
  Endpoints :: "EndpointData list"
  ClientBodyAttributeTypes :: "TypeData list"
  ExpandedTypes :: "ExpandedTypeData list"

text \<open>The design expressions: \<^verbatim>\<open>svc.Name()\<close>, \<^verbatim>\<open>svc.HTTPEndpoints\<close>, \<^verbatim>\<open>a.Name()\<close>,
  \<^verbatim>\<open>root.HTTPServices\<close>.\<close>

record EndpointExpr =
  EndpointExpr_Name :: string

record ServiceExpr =
  ServiceExpr_Name :: string
  HTTPEndpoints :: "EndpointExpr list"

record RootExpr =
  HTTPServices :: "ServiceExpr list"

subsection \<open>Sections and files\<close>

text \<open>The \<^verbatim>\<open>Source\<close> of a section is one of the template constants; the tag names the
  constant. \<^verbatim>\<open>Data\<close> is an \<^verbatim>\<open>interface{}\<close>: one constructor per type stored in it.\<close>

datatype Template =
  headerT | typeDeclT | clientBodyInitT | clientTypeInitT | expandedTypeConvertT
  | transformHelperT | validateT | validateExpandedTypeT

datatype SectionData =
  HeaderData string string "ImportSpec list"
  | BodyData TypeData
  | InitializerData InitData
  | ExpandedData ExpandedTypeData
  | HelperData TransformFunctionData

record SectionTemplate =
  Section_Name :: string
  Source :: Template
  Data :: SectionData

record File =
  File_Path :: string
  SectionTemplates :: "SectionTemplate list"

subsection \<open>What the file takes from the rest of the generator\<close>

text \<open>
  \<^verbatim>\<open>codegen.Gendir\<close>, \<^verbatim>\<open>codegen.SnakeCase\<close>, \<^verbatim>\<open>codegen.Comment\<close> (the template function
  \<^verbatim>\<open>comment\<close>), \<^verbatim>\<open>HTTPServices.Get\<close> and the method \<^verbatim>\<open>Endpoint\<close> of the service data
  are defined outside the file: they are parameters. The two lookups return pointers,
  \<open>None\<close> is \<^verbatim>\<open>nil\<close>.
\<close>

record Env =
  Gendir :: string
  SnakeCase :: "string \<Rightarrow> string"
  Comment :: "string \<Rightarrow> string"
  HTTPServices_Get :: "string \<Rightarrow> ServiceData option"
  Endpoint :: "ServiceData \<Rightarrow> string \<Rightarrow> EndpointData option"

text \<open>Modelled from the spec: \<^verbatim>\<open>codegen.Header\<close> is not in the file; the spec calls what
  it returns the header/import section, the first section of every artifact. It carries
  the title, the package name and the imports it is given. The name of the section is not
  said anywhere; the one below stands for it, and it is no name that \<^verbatim>\<open>clientType\<close>
  gives to a section of its own.\<close>

definition Header :: "string \<Rightarrow> string \<Rightarrow> ImportSpec list \<Rightarrow> SectionTemplate" where
  "Header title pkg imports =
     \<lparr>Section_Name = ''source-header'', Source = headerT, Data = HeaderData title pkg imports\<rparr>"

subsection \<open>\<^verbatim>\<open>filepath.Join\<close>\<close>

text \<open>
  Go's \<^verbatim>\<open>path/filepath\<close> on a system whose separator is \<^verbatim>\<open>/\<close>: \<^verbatim>\<open>Join\<close> drops
  the leading empty elements, joins the rest with the separator and cleans the result;
  \<^verbatim>\<open>Clean\<close> drops empty and \<^verbatim>\<open>.\<close> elements, lets \<^verbatim>\<open>..\<close> remove the element
  before it (and drops it at the root), and returns \<^verbatim>\<open>.\<close> for the empty path.
\<close>

fun split_sep :: "string \<Rightarrow> string list" where
  "split_sep [] = [[]]"
| "split_sep (c # cs) =
     (if c = CHR ''/'' then [] # split_sep cs
      else (case split_sep cs of [] \<Rightarrow> [[c]] | e # es \<Rightarrow> (c # e) # es))"

fun join_sep :: "string list \<Rightarrow> string" where
  "join_sep [] = []"
| "join_sep [e] = e"
| "join_sep (e # f # es) = e @ CHR ''/'' # join_sep (f # es)"

text \<open>\<open>out\<close> holds the elements kept so far, the last one first.\<close>

fun clean_elems :: "bool \<Rightarrow> string list \<Rightarrow> string list \<Rightarrow> string list" where
  "clean_elems rooted out [] = rev out"
| "clean_elems rooted out (e # es) =
     (if e = [] \<or> e = ''.'' then clean_elems rooted out es
      else if e = ''..'' then
        (case out of
           [] \<Rightarrow> if rooted then clean_elems rooted out es else clean_elems rooted [''..''] es
         | l # ls \<Rightarrow>
             if l = ''..'' then clean_elems rooted (''..'' # out) es
             else clean_elems rooted ls es)
      else clean_elems rooted (e # out) es)"

definition Clean :: "string \<Rightarrow> string" where
  "Clean path =
     (if path = [] then ''.''
      else
        let rooted = (hd path = CHR ''/'');
            s = join_sep (clean_elems rooted [] (split_sep path))
        in if rooted then CHR ''/'' # s else if s = [] then ''.'' else s)"

definition filepath_Join :: "string list \<Rightarrow> string" where
  "filepath_Join elem =
     (case dropWhile (\<lambda>e. e = []) elem of
        [] \<Rightarrow> []
      | e # es \<Rightarrow> Clean (join_sep (e # es)))"

section \<open>\<^verbatim>\<open>clientType\<close>\<close>

text \<open>The three variables the function appends to.\<close>

record planning =
  sections :: "SectionTemplate list"
  initData :: "InitData list"
  validatedTypes :: "TypeData list"

definition append_section :: "string \<Rightarrow> Template \<Rightarrow> SectionData \<Rightarrow> planning \<Rightarrow> planning" where
  "append_section name src d s =
     s\<lparr>sections := sections s @ [\<lparr>Section_Name = name, Source = src, Data = d\<rparr>]\<rparr>"

text \<open>The body of the first loop, for a request body that is not \<^verbatim>\<open>nil\<close>.\<close>

definition request_body :: "TypeData \<Rightarrow> planning \<Rightarrow> planning" where
  "request_body data s =
     (let s1 = (if Def data \<noteq> [] then
                  append_section ''client-request-body'' typeDeclT (BodyData data) s
                else s);
          s2 = (case Init data of
                  Some init \<Rightarrow> s1\<lparr>initData := initData s1 @ [init]\<rparr>
                | None \<Rightarrow> s1)
      in if ValidateDef data \<noteq> [] then s2\<lparr>validatedTypes := validatedTypes s2 @ [data]\<rparr>
         else s2)"

text \<open>The body shared by the response, error and body attribute loops: they differ in
  the section name only, and none of them reads \<^verbatim>\<open>data.Init\<close>.\<close>

definition declared_body :: "string \<Rightarrow> TypeData \<Rightarrow> planning \<Rightarrow> planning" where
  "declared_body name data s =
     (let s1 = (if Def data \<noteq> [] then append_section name typeDeclT (BodyData data) s else s)
      in if ValidateDef data \<noteq> [] then s1\<lparr>validatedTypes := validatedTypes s1 @ [data]\<rparr>
         else s1)"

fun request_body_types ::
  "Env \<Rightarrow> ServiceData \<Rightarrow> EndpointExpr list \<Rightarrow> planning \<Rightarrow> error + planning" where
  "request_body_types env rdata [] s = Inr s"
| "request_body_types env rdata (a # as) s =
     (case Endpoint env rdata (EndpointExpr_Name a) of
        None \<Rightarrow> Inl NilDereference
      | Some adata \<Rightarrow>
          request_body_types env rdata as
            (case Request_ClientBody (Request (Payload adata)) of
               None \<Rightarrow> s
             | Some data \<Rightarrow> request_body data s))"

fun response_bodies :: "ResponseData list \<Rightarrow> planning \<Rightarrow> planning" where
  "response_bodies [] s = s"
| "response_bodies (resp # resps) s =
     response_bodies resps
       (case Response_ClientBody resp of
          None \<Rightarrow> s
        | Some data \<Rightarrow> declared_body ''client-response-body'' data s)"

fun response_body_types ::
  "Env \<Rightarrow> ServiceData \<Rightarrow> EndpointExpr list \<Rightarrow> planning \<Rightarrow> error + planning" where
  "response_body_types env rdata [] s = Inr s"
| "response_body_types env rdata (a # as) s =
     (case Endpoint env rdata (EndpointExpr_Name a) of
        None \<Rightarrow> Inl NilDereference
      | Some adata \<Rightarrow>
          response_body_types env rdata as (response_bodies (Responses (Result adata)) s))"

fun error_bodies :: "ErrorData list \<Rightarrow> planning \<Rightarrow> planning" where
  "error_bodies [] s = s"
| "error_bodies (herr # herrs) s =
     error_bodies herrs
       (case Response_ClientBody (Response herr) of
          None \<Rightarrow> s
        | Some data \<Rightarrow> declared_body ''client-error-body'' data s)"

fun error_body_types ::
  "Env \<Rightarrow> ServiceData \<Rightarrow> EndpointExpr list \<Rightarrow> planning \<Rightarrow> error + planning" where
  "error_body_types env rdata [] s = Inr s"
| "error_body_types env rdata (a # as) s =
     (case Endpoint env rdata (EndpointExpr_Name a) of
        None \<Rightarrow> Inl NilDereference
      | Some adata \<Rightarrow> error_body_types env rdata as (error_bodies (Errors adata) s))"

fun body_attribute_types :: "TypeData list \<Rightarrow> planning \<Rightarrow> planning" where
  "body_attribute_types [] s = s"
| "body_attribute_types (data # ds) s =
     body_attribute_types ds (declared_body ''client-body-attributes'' data s)"

fun expanded_types :: "ExpandedTypeData list \<Rightarrow> planning \<Rightarrow> planning" where
  "expanded_types [] s = s"
| "expanded_types (t # ts) s =
     expanded_types ts (append_section ''expanded-type'' typeDeclT (ExpandedData t) s)"

fun body_constructors :: "InitData list \<Rightarrow> planning \<Rightarrow> planning" where
  "body_constructors [] s = s"
| "body_constructors (init # inits) s =
     body_constructors inits
       (append_section ''client-body-init'' clientBodyInitT (InitializerData init) s)"

fun response_results :: "ResponseData list \<Rightarrow> planning \<Rightarrow> planning" where
  "response_results [] s = s"
| "response_results (resp # resps) s =
     response_results resps
       (case ResultInit resp of
          None \<Rightarrow> s
        | Some init \<Rightarrow>
            append_section ''client-result-init'' clientTypeInitT (InitializerData init) s)"

fun error_results :: "ErrorData list \<Rightarrow> planning \<Rightarrow> planning" where
  "error_results [] s = s"
| "error_results (herr # herrs) s =
     error_results herrs
       (case ResultInit (Response herr) of
          None \<Rightarrow> s
        | Some init \<Rightarrow>
            append_section ''client-error-result-init'' clientTypeInitT (InitializerData init) s)"

fun result_constructors :: "EndpointData list \<Rightarrow> planning \<Rightarrow> planning" where
  "result_constructors [] s = s"
| "result_constructors (adata # adatas) s =
     result_constructors adatas
       (error_results (Errors adata) (response_results (Responses (Result adata)) s))"

fun expanded_type_converts :: "ExpandedTypeData list \<Rightarrow> planning \<Rightarrow> planning" where
  "expanded_type_converts [] s = s"
| "expanded_type_converts (t # ts) s =
     expanded_type_converts ts
       (append_section ''expanded-type-convert'' expandedTypeConvertT (ExpandedData t) s)"

fun transform_helpers :: "TransformFunctionData list \<Rightarrow> planning \<Rightarrow> planning" where
  "transform_helpers [] s = s"
| "transform_helpers (h # hs) s =
     transform_helpers hs (append_section ''transform-helper'' transformHelperT (HelperData h) s)"

fun validate_methods :: "TypeData list \<Rightarrow> planning \<Rightarrow> planning" where
  "validate_methods [] s = s"
| "validate_methods (data # ds) s =
     validate_methods ds (append_section ''client-validate'' validateT (BodyData data) s)"

fun validate_expanded :: "ExpandedTypeData list \<Rightarrow> planning \<Rightarrow> planning" where
  "validate_expanded [] s = s"
| "validate_expanded (t # ts) s =
     validate_expanded ts
       (append_section ''client-validate-expanded'' validateExpandedTypeT (ExpandedData t) s)"

definition client_types_path :: "Env \<Rightarrow> string \<Rightarrow> string" where
  "client_types_path env name =
     filepath_Join [Gendir env, ''http'', SnakeCase env name, ''client'', ''types.go'']"

definition client_types_header :: "Env \<Rightarrow> string \<Rightarrow> string \<Rightarrow> ServiceData \<Rightarrow> SectionTemplate" where
  "client_types_header env genpkg name sd =
     Header (name @ '' HTTP client types'') ''client''
       [\<lparr>ImportSpec_Path = ''unicode/utf8'', ImportSpec_Name = []\<rparr>,
        \<lparr>ImportSpec_Path = genpkg @ ''/'' @ SnakeCase env name,
         ImportSpec_Name = PkgName (Service sd)\<rparr>,
        \<lparr>ImportSpec_Path = ''goa.design/goa'', ImportSpec_Name = ''goa''\<rparr>]"

text \<open>
  The phases after the three loops that look endpoints up; none of them can fail. The
  body constructors and the validate methods range over what the state holds when their
  loop starts.
\<close>

definition later_phases :: "ServiceData \<Rightarrow> planning \<Rightarrow> planning" where
  "later_phases rdata s3 =
     (let s4 = body_attribute_types (ClientBodyAttributeTypes rdata) s3;
          s5 = expanded_types (ExpandedTypes rdata) s4;
          s6 = body_constructors (initData s5) s5;
          s7 = result_constructors (Endpoints rdata) s6;
          s8 = expanded_type_converts (ExpandedTypes rdata) s7;
          s9 = transform_helpers (Helpers (Service rdata)) s8;
          s10 = validate_methods (validatedTypes s9) s9
      in validate_expanded (Service_ExpandedTypes (Service rdata)) s10)"

text \<open>
  \<^verbatim>\<open>clientType\<close>. Both calls of \<^verbatim>\<open>HTTPServices.Get\<close> have the same argument; a
  \<^verbatim>\<open>nil\<close> result is dereferenced when the header is built. The argument \<open>seen\<close> is
  never read and never written.
\<close>

definition clientType :: "Env \<Rightarrow> string \<Rightarrow> ServiceExpr \<Rightarrow> seen_names \<Rightarrow> error + File" where
  "clientType env genpkg svc seen =
     (case HTTPServices_Get env (ServiceExpr_Name svc) of
        None \<Rightarrow> Inl NilDereference
      | Some rdata \<Rightarrow>
          (let path = client_types_path env (ServiceExpr_Name svc);
               header = client_types_header env genpkg (ServiceExpr_Name svc) rdata;
               s0 = \<lparr>sections = [header], initData = [], validatedTypes = []\<rparr>
           in (case request_body_types env rdata (HTTPEndpoints svc) s0 of
                 Inl e \<Rightarrow> Inl e
               | Inr s1 \<Rightarrow>
                   (case response_body_types env rdata (HTTPEndpoints svc) s1 of
                      Inl e \<Rightarrow> Inl e
                    | Inr s2 \<Rightarrow>
                        (case error_body_types env rdata (HTTPEndpoints svc) s2 of
                           Inl e \<Rightarrow> Inl e
                         | Inr s3 \<Rightarrow>
                             Inr \<lparr>File_Path = path,
                                  SectionTemplates = sections (later_phases rdata s3)\<rparr>)))))"

text \<open>\<^verbatim>\<open>ClientTypeFiles\<close>: one call of \<^verbatim>\<open>clientType\<close> per service, in order, all with
  the same map; a panic in one call ends the whole function.\<close>

fun client_type_files :: "Env \<Rightarrow> string \<Rightarrow> seen_names \<Rightarrow> ServiceExpr list \<Rightarrow> error + File list" where
  "client_type_files env genpkg seen [] = Inr []"
| "client_type_files env genpkg seen (svc # svcs) =
     (case clientType env genpkg svc seen of
        Inl e \<Rightarrow> Inl e
      | Inr f \<Rightarrow>
          (case client_type_files env genpkg seen svcs of
             Inl e \<Rightarrow> Inl e
           | Inr fw \<Rightarrow> Inr (f # fw)))"

definition ClientTypeFiles :: "Env \<Rightarrow> string \<Rightarrow> RootExpr \<Rightarrow> error + File list" where
  "ClientTypeFiles env genpkg root = client_type_files env genpkg Map.empty (HTTPServices root)"

section \<open>The phases of an artifact, one definition per phase\<close>

text \<open>
  The second description of the section list: each phase as a list computed from the
  descriptors alone, the way the spec lists the phases. \<open>adatas\<close> are the endpoint data
  in the order of the service's endpoints.
\<close>

definition request_bodies_of :: "EndpointData list \<Rightarrow> TypeData list" where
  "request_bodies_of adatas =
     List.map_filter (\<lambda>adata. Request_ClientBody (Request (Payload adata))) adatas"

definition response_bodies_of :: "EndpointData list \<Rightarrow> TypeData list" where
  "response_bodies_of adatas =
     concat (map (\<lambda>adata. List.map_filter Response_ClientBody (Responses (Result adata))) adatas)"

definition error_bodies_of :: "EndpointData list \<Rightarrow> TypeData list" where
  "error_bodies_of adatas =
     concat (map (\<lambda>adata.
       List.map_filter (\<lambda>herr. Response_ClientBody (Response herr)) (Errors adata)) adatas)"

definition type_decl :: "string \<Rightarrow> TypeData \<Rightarrow> SectionTemplate list" where
  "type_decl name data =
     (if Def data \<noteq> [] then
        [\<lparr>Section_Name = name, Source = typeDeclT, Data = BodyData data\<rparr>]
      else [])"

definition expanded_decl :: "ExpandedTypeData \<Rightarrow> SectionTemplate" where
  "expanded_decl t =
     \<lparr>Section_Name = ''expanded-type'', Source = typeDeclT, Data = ExpandedData t\<rparr>"

definition type_declarations :: "EndpointData list \<Rightarrow> ServiceData \<Rightarrow> SectionTemplate list" where
  "type_declarations adatas rdata =
     concat (map (type_decl ''client-request-body'') (request_bodies_of adatas))
     @ concat (map (type_decl ''client-response-body'') (response_bodies_of adatas))
     @ concat (map (type_decl ''client-error-body'') (error_bodies_of adatas))
     @ concat (map (type_decl ''client-body-attributes'') (ClientBodyAttributeTypes rdata))
     @ map expanded_decl (ExpandedTypes rdata)"

definition body_init :: "InitData \<Rightarrow> SectionTemplate" where
  "body_init init =
     \<lparr>Section_Name = ''client-body-init'', Source = clientBodyInitT,
      Data = InitializerData init\<rparr>"

definition result_init :: "InitData \<Rightarrow> SectionTemplate" where
  "result_init init =
     \<lparr>Section_Name = ''client-result-init'', Source = clientTypeInitT,
      Data = InitializerData init\<rparr>"

definition error_result_init :: "InitData \<Rightarrow> SectionTemplate" where
  "error_result_init init =
     \<lparr>Section_Name = ''client-error-result-init'', Source = clientTypeInitT,
      Data = InitializerData init\<rparr>"

definition body_inits :: "EndpointData list \<Rightarrow> SectionTemplate list" where
  "body_inits adatas = map body_init (List.map_filter Init (request_bodies_of adatas))"

definition endpoint_result_inits :: "EndpointData \<Rightarrow> SectionTemplate list" where
  "endpoint_result_inits adata =
     map result_init (List.map_filter ResultInit (Responses (Result adata)))
     @ map error_result_init
         (List.map_filter (\<lambda>herr. ResultInit (Response herr)) (Errors adata))"

definition result_inits :: "EndpointData list \<Rightarrow> SectionTemplate list" where
  "result_inits adatas = concat (map endpoint_result_inits adatas)"

definition view_convert :: "ExpandedTypeData \<Rightarrow> SectionTemplate" where
  "view_convert t =
     \<lparr>Section_Name = ''expanded-type-convert'', Source = expandedTypeConvertT,
      Data = ExpandedData t\<rparr>"

definition transform_helper :: "TransformFunctionData \<Rightarrow> SectionTemplate" where
  "transform_helper h =
     \<lparr>Section_Name = ''transform-helper'', Source = transformHelperT, Data = HelperData h\<rparr>"

definition flagged :: "TypeData list \<Rightarrow> TypeData list" where
  "flagged ds = filter (\<lambda>data. ValidateDef data \<noteq> []) ds"

definition body_descriptors :: "EndpointData list \<Rightarrow> ServiceData \<Rightarrow> TypeData list" where
  "body_descriptors adatas rdata =
     request_bodies_of adatas @ response_bodies_of adatas @ error_bodies_of adatas
     @ ClientBodyAttributeTypes rdata"

definition validator :: "TypeData \<Rightarrow> SectionTemplate" where
  "validator data =
     \<lparr>Section_Name = ''client-validate'', Source = validateT, Data = BodyData data\<rparr>"

definition expanded_validator :: "ExpandedTypeData \<Rightarrow> SectionTemplate" where
  "expanded_validator t =
     \<lparr>Section_Name = ''client-validate-expanded'', Source = validateExpandedTypeT,
      Data = ExpandedData t\<rparr>"

definition validators :: "EndpointData list \<Rightarrow> ServiceData \<Rightarrow> SectionTemplate list" where
  "validators adatas rdata =
     map validator (flagged (body_descriptors adatas rdata))
     @ map expanded_validator (Service_ExpandedTypes (Service rdata))"

definition phase_plan ::
  "SectionTemplate \<Rightarrow> EndpointData list \<Rightarrow> ServiceData \<Rightarrow> SectionTemplate list" where
  "phase_plan header adatas rdata =
     header # type_declarations adatas rdata
     @ (body_inits adatas @ result_inits (Endpoints rdata))
     @ map view_convert (ExpandedTypes rdata)
     @ map transform_helper (Helpers (Service rdata))
     @ validators adatas rdata"

text \<open>Everything after the type declarations.\<close>

definition dependents :: "EndpointData list \<Rightarrow> ServiceData \<Rightarrow> SectionTemplate list" where
  "dependents adatas rdata =
     (body_inits adatas @ result_inits (Endpoints rdata))
     @ map view_convert (ExpandedTypes rdata)
     @ map transform_helper (Helpers (Service rdata))
     @ validators adatas rdata"

text \<open>The service data describe the service: every endpoint of the service is found by
  its name, and the data list the endpoints in the service's order.\<close>

definition describes :: "Env \<Rightarrow> ServiceData \<Rightarrow> ServiceExpr \<Rightarrow> bool" where
  "describes env rdata svc \<longleftrightarrow>
     HTTPServices_Get env (ServiceExpr_Name svc) = Some rdata \<and>
     map (\<lambda>a. Endpoint env rdata (EndpointExpr_Name a)) (HTTPEndpoints svc)
       = map Some (Endpoints rdata)"

section \<open>Notions the properties are stated with\<close>

text \<open>The sections of what a call returns; a call that panics returns no artifact.\<close>

definition artifact_sections :: "error + File \<Rightarrow> SectionTemplate list" where
  "artifact_sections r = (case r of Inl e \<Rightarrow> [] | Inr f \<Rightarrow> SectionTemplates f)"

text \<open>A type declaration renders \<^verbatim>\<open>typeDeclT\<close>. The sections that use declared types
  are the constructors, the view conversions, the transform helpers and the validators.\<close>

definition is_type_declaration :: "SectionTemplate \<Rightarrow> bool" where
  "is_type_declaration sec \<longleftrightarrow> Source sec = typeDeclT"

definition is_dependent :: "SectionTemplate \<Rightarrow> bool" where
  "is_dependent sec \<longleftrightarrow>
     Source sec = clientBodyInitT \<or> Source sec = clientTypeInitT \<or>
     Source sec = expandedTypeConvertT \<or> Source sec = transformHelperT \<or>
     Source sec = validateT \<or> Source sec = validateExpandedTypeT"

definition is_validator :: "SectionTemplate \<Rightarrow> bool" where
  "is_validator sec \<longleftrightarrow> Source sec = validateT \<or> Source sec = validateExpandedTypeT"

definition is_view_conversion :: "SectionTemplate \<Rightarrow> bool" where
  "is_view_conversion sec \<longleftrightarrow> Source sec = expandedTypeConvertT"

text \<open>The name of the type a section declares.\<close>

fun declared_type :: "SectionData \<Rightarrow> string" where
  "declared_type (BodyData data) = TypeData_Name data"
| "declared_type (ExpandedData t) = VarName t"
| "declared_type (HeaderData title pkg imports) = []"
| "declared_type (InitializerData init) = []"
| "declared_type (HelperData h) = []"

definition declared_type_names :: "SectionTemplate list \<Rightarrow> string list" where
  "declared_type_names secs = map (\<lambda>sec. declared_type (Data sec)) (filter is_type_declaration secs)"

text \<open>The validator phase in the spec's words: the flagged body descriptors in
  declaration order, then the expanded types that require validation, those whose
  validation code is not empty.\<close>

definition validators_as_specified :: "EndpointData list \<Rightarrow> ServiceData \<Rightarrow> SectionTemplate list" where
  "validators_as_specified adatas rdata =
     map validator (flagged (body_descriptors adatas rdata))
     @ map expanded_validator
         (filter (\<lambda>t. Validate t \<noteq> []) (Service_ExpandedTypes (Service rdata)))"

text \<open>The elements \<^verbatim>\<open>filepath.Clean\<close> leaves as they are.\<close>

definition path_element :: "string \<Rightarrow> bool" where
  "path_element e \<longleftrightarrow> e \<noteq> [] \<and> CHR ''/'' \<notin> set e \<and> e \<noteq> ''.'' \<and> e \<noteq> ''..''"

text \<open>No lookup made for the service returns \<^verbatim>\<open>nil\<close>.\<close>

definition lookups_succeed :: "Env \<Rightarrow> ServiceExpr \<Rightarrow> bool" where
  "lookups_succeed env svc =
     (case HTTPServices_Get env (ServiceExpr_Name svc) of
        None \<Rightarrow> False
      | Some rdata \<Rightarrow>
          list_all (\<lambda>a. Endpoint env rdata (EndpointExpr_Name a) \<noteq> None) (HTTPEndpoints svc))"

subsection \<open>The template \<^verbatim>\<open>expandedTypeConvertT\<close>\<close>

text \<open>
  The text the template produces for its input: the body of \<^verbatim>\<open>range .Views\<close> once per
  view, then the newline after \<^verbatim>\<open>end\<close>. Inside the range \<^verbatim>\<open>$\<close> is the expanded type
  and the dot is the view; \<^verbatim>\<open>printf\<close> with four \<^verbatim>\<open>%s\<close> verbs puts the four strings in
  their places, and its result goes through \<^verbatim>\<open>comment\<close>.
\<close>

definition view_function_comment :: "ExpandedTypeData \<Rightarrow> ViewData \<Rightarrow> string" where
  "view_function_comment t v =
     ToResult v @ '' converts '' @ Expanded_Name t @ '' type to '' @ ResultName t
     @ '' result type using the '' @ View v @ '' view.''"

definition view_function :: "Env \<Rightarrow> ExpandedTypeData \<Rightarrow> ViewData \<Rightarrow> string" where
  "view_function env t v =
     ''\<newline>'' @ Comment env (view_function_comment t v)
     @ ''\<newline>func (e '' @ View_Ref v @ '') '' @ ToResult v @ ''() '' @ ResultRef t
     @ '' {\<newline>  '' @ ToResultCode v
     @ ''\<newline>  return res\<newline>}\<newline>''"

definition render_expandedTypeConvertT :: "Env \<Rightarrow> ExpandedTypeData \<Rightarrow> string" where
  "render_expandedTypeConvertT env t =
     concat (map (view_function env t) (Views t)) @ ''\<newline>''"

text \<open>The first line of a function the template writes: receiver, name and result type.\<close>

definition view_function_signature :: "ExpandedTypeData \<Rightarrow> ViewData \<Rightarrow> string" where
  "view_function_signature t v =
     ''func (e '' @ View_Ref v @ '') '' @ ToResult v @ ''() '' @ ResultRef t"

section \<open>The pointer policy\<close>

text \<open>
  Modelled from the spec: the function that decides whether a field is held by value or
  by pointer is not in the file, which only states its rules in the comment of
  \<^verbatim>\<open>clientType\<close>. The definition follows section 4.1 of the spec, rule by rule and in its
  order; every pair of a kind and a context is matched by a rule, so no input is left for
  the error the spec names.
\<close>

datatype kind = primitive | aggregate

datatype field_context =
  payload_field | body_field | param | header_request | header_response | result_field

datatype representation = by_value | optional

fun PointerPolicyResolver :: "bool \<Rightarrow> bool \<Rightarrow> kind \<Rightarrow> field_context \<Rightarrow> representation" where
  "PointerPolicyResolver required hasDefault aggregate ctx = optional"
| "PointerPolicyResolver required hasDefault primitive payload_field =
     (if \<not> required \<and> \<not> hasDefault then optional else by_value)"
| "PointerPolicyResolver required hasDefault primitive body_field = optional"
| "PointerPolicyResolver required hasDefault primitive param =
     (if \<not> required then optional else by_value)"
| "PointerPolicyResolver required hasDefault primitive header_request =
     (if \<not> required then optional else by_value)"
| "PointerPolicyResolver required hasDefault primitive result_field =
     (if \<not> required \<or> hasDefault then optional else by_value)"
| "PointerPolicyResolver required hasDefault primitive header_response =
     (if \<not> required \<and> \<not> hasDefault then optional else by_value)"

section \<open>Example services\<close>

text \<open>An environment for examples: the generation directory \<^verbatim>\<open>gen\<close>, service names that
  are their own snake case, line comments, and the two lookups as tables.\<close>

definition example_env :: "(string \<times> ServiceData) list \<Rightarrow> (string \<times> EndpointData) list \<Rightarrow> Env" where
  "example_env services endpoints =
     \<lparr>Gendir = ''gen'', SnakeCase = (\<lambda>name. name), Comment = (\<lambda>text. ''// '' @ text),
      HTTPServices_Get = map_of services, Endpoint = (\<lambda>rdata. map_of endpoints)\<rparr>"

definition example_init :: "string \<Rightarrow> string \<Rightarrow> InitData" where
  "example_init name ref =
     \<lparr>Init_Name = name, Description = [], ClientArgs = [], ReturnTypeRef = ref,
      ReturnTypeName = [], ReturnTypeAttribute = [], ReturnIsStruct = False, ClientCode = []\<rparr>"

subsection \<open>A service with a section in every phase, and one with nothing\<close>

definition upload_init :: InitData where
  "upload_init = example_init ''NewUploadRequestBody'' ''*UploadRequestBody''"

definition upload_body :: TypeData where
  "upload_body =
     \<lparr>TypeData_Name = ''UploadRequestBody'', Def = [], Init = Some upload_init,
      ValidateDef = ''if body.Name == nil { err = missing }''\<rparr>"

definition upload_ok_body :: TypeData where
  "upload_ok_body =
     \<lparr>TypeData_Name = ''UploadResponseBody'', Def = ''struct { ID *string }'', Init = None,
      ValidateDef = ''if body.ID == nil { err = missing }''\<rparr>"

definition upload_ok_init :: InitData where
  "upload_ok_init = example_init ''NewUploadFileOK'' ''*storage.File''"

definition bad_request_body :: TypeData where
  "bad_request_body =
     \<lparr>TypeData_Name = ''UploadBadRequestResponseBody'', Def = ''struct { Message *string }'',
      Init = None, ValidateDef = []\<rparr>"

definition bad_request_init :: InitData where
  "bad_request_init = example_init ''NewUploadBadRequest'' ''*goa.ServiceError''"

definition upload_data :: EndpointData where
  "upload_data =
     \<lparr>Payload = \<lparr>Request = \<lparr>Request_ClientBody = Some upload_body\<rparr>\<rparr>,
      Result = \<lparr>Responses =
        [\<lparr>Response_ClientBody = Some upload_ok_body, ResultInit = Some upload_ok_init\<rparr>]\<rparr>,
      Errors =
        [\<lparr>Response =
            \<lparr>Response_ClientBody = Some bad_request_body, ResultInit = Some bad_request_init\<rparr>\<rparr>]\<rparr>"

definition rename_body :: TypeData where
  "rename_body =
     \<lparr>TypeData_Name = ''RenameRequestBody'', Def = ''struct { Name *string }'', Init = None,
      ValidateDef = []\<rparr>"

definition rename_data :: EndpointData where
  "rename_data =
     \<lparr>Payload = \<lparr>Request = \<lparr>Request_ClientBody = Some rename_body\<rparr>\<rparr>,
      Result = \<lparr>Responses = [\<lparr>Response_ClientBody = None, ResultInit = None\<rparr>]\<rparr>,
      Errors = []\<rparr>"

definition tag_body :: TypeData where
  "tag_body =
     \<lparr>TypeData_Name = ''TagRequestBody'', Def = ''struct { Label *string }'', Init = None,
      ValidateDef = ''if body.Label == nil { err = missing }''\<rparr>"

definition file_views :: ExpandedTypeData where
  "file_views =
     \<lparr>Expanded_Name = ''File'', VarName = ''FileView'', Expanded_Ref = ''*FileView'',
      ResultName = ''File'', ResultRef = ''*storage.File'', Validate = [],
      Views =
        [\<lparr>ToResult = ''ToFile'', View = ''default'', View_Ref = ''*FileView'',
          ToResultCode = ''res := newFile(e)''\<rparr>,
         \<lparr>ToResult = ''ToFileTiny'', View = ''tiny'', View_Ref = ''*FileView'',
          ToResultCode = ''res := newFileTiny(e)''\<rparr>]\<rparr>"

definition tag_helper :: TransformFunctionData where
  "tag_helper = \<lparr>Helper_Name = ''marshalTag'', Helper_Code = ''res := v''\<rparr>"

definition storage_data :: ServiceData where
  "storage_data =
     \<lparr>Service = \<lparr>PkgName = ''storage'', Helpers = [tag_helper],
        Service_ExpandedTypes = [file_views]\<rparr>,
      Endpoints = [upload_data, rename_data],
      ClientBodyAttributeTypes = [tag_body],
      ExpandedTypes = [file_views]\<rparr>"

definition storage_svc :: ServiceExpr where
  "storage_svc =
     \<lparr>ServiceExpr_Name = ''storage'',
      HTTPEndpoints = [\<lparr>EndpointExpr_Name = ''upload''\<rparr>, \<lparr>EndpointExpr_Name = ''rename''\<rparr>]\<rparr>"

definition health_data :: ServiceData where
  "health_data =
     \<lparr>Service = \<lparr>PkgName = ''health'', Helpers = [], Service_ExpandedTypes = []\<rparr>,
      Endpoints = [], ClientBodyAttributeTypes = [], ExpandedTypes = []\<rparr>"

definition health_svc :: ServiceExpr where
  "health_svc = \<lparr>ServiceExpr_Name = ''health'', HTTPEndpoints = []\<rparr>"

definition storage_env :: Env where
  "storage_env =
     example_env [(''storage'', storage_data), (''health'', health_data)]
       [(''upload'', upload_data), (''rename'', rename_data)]"

definition storage_header :: SectionTemplate where
  "storage_header =
     \<lparr>Section_Name = ''source-header'', Source = headerT,
      Data = HeaderData ''storage HTTP client types'' ''client''
        [\<lparr>ImportSpec_Path = ''unicode/utf8'', ImportSpec_Name = []\<rparr>,
         \<lparr>ImportSpec_Path = ''pkg/storage'', ImportSpec_Name = ''storage''\<rparr>,
         \<lparr>ImportSpec_Path = ''goa.design/goa'', ImportSpec_Name = ''goa''\<rparr>]\<rparr>"

definition storage_sections :: "SectionTemplate list" where
  "storage_sections =
     [storage_header,
      \<lparr>Section_Name = ''client-request-body'', Source = typeDeclT, Data = BodyData rename_body\<rparr>,
      \<lparr>Section_Name = ''client-response-body'', Source = typeDeclT,
       Data = BodyData upload_ok_body\<rparr>,
      \<lparr>Section_Name = ''client-error-body'', Source = typeDeclT,
       Data = BodyData bad_request_body\<rparr>,
      \<lparr>Section_Name = ''client-body-attributes'', Source = typeDeclT, Data = BodyData tag_body\<rparr>,
      \<lparr>Section_Name = ''expanded-type'', Source = typeDeclT, Data = ExpandedData file_views\<rparr>,
      \<lparr>Section_Name = ''client-body-init'', Source = clientBodyInitT,
       Data = InitializerData upload_init\<rparr>,
      \<lparr>Section_Name = ''client-result-init'', Source = clientTypeInitT,
       Data = InitializerData upload_ok_init\<rparr>,
      \<lparr>Section_Name = ''client-error-result-init'', Source = clientTypeInitT,
       Data = InitializerData bad_request_init\<rparr>,
      \<lparr>Section_Name = ''expanded-type-convert'', Source = expandedTypeConvertT,
       Data = ExpandedData file_views\<rparr>,
      \<lparr>Section_Name = ''transform-helper'', Source = transformHelperT,
       Data = HelperData tag_helper\<rparr>,
      \<lparr>Section_Name = ''client-validate'', Source = validateT, Data = BodyData upload_body\<rparr>,
      \<lparr>Section_Name = ''client-validate'', Source = validateT, Data = BodyData upload_ok_body\<rparr>,
      \<lparr>Section_Name = ''client-validate'', Source = validateT, Data = BodyData tag_body\<rparr>,
      \<lparr>Section_Name = ''client-validate-expanded'', Source = validateExpandedTypeT,
       Data = ExpandedData file_views\<rparr>]"

definition storage_file :: File where
  "storage_file =
     \<lparr>File_Path = ''gen/http/storage/client/types.go'', SectionTemplates = storage_sections\<rparr>"

definition health_file :: File where
  "health_file =
     \<lparr>File_Path = ''gen/http/health/client/types.go'',
      SectionTemplates =
        [\<lparr>Section_Name = ''source-header'', Source = headerT,
          Data = HeaderData ''health HTTP client types'' ''client''
            [\<lparr>ImportSpec_Path = ''unicode/utf8'', ImportSpec_Name = []\<rparr>,
             \<lparr>ImportSpec_Path = ''pkg/health'', ImportSpec_Name = ''health''\<rparr>,
             \<lparr>ImportSpec_Path = ''goa.design/goa'', ImportSpec_Name = ''goa''\<rparr>]\<rparr>]\<rparr>"

definition storage_root :: RootExpr where
  "storage_root = \<lparr>HTTPServices = [storage_svc, health_svc]\<rparr>"

subsection \<open>Two endpoints whose error responses have the same body type\<close>

definition not_found_body :: TypeData where
  "not_found_body =
     \<lparr>TypeData_Name = ''NotFoundResponseBody'', Def = ''struct { Message *string }'',
      Init = None, ValidateDef = []\<rparr>"

definition lookup_data :: EndpointData where
  "lookup_data =
     \<lparr>Payload = \<lparr>Request = \<lparr>Request_ClientBody = None\<rparr>\<rparr>,
      Result = \<lparr>Responses = []\<rparr>,
      Errors = [\<lparr>Response = \<lparr>Response_ClientBody = Some not_found_body, ResultInit = None\<rparr>\<rparr>]\<rparr>"

definition catalog_data :: ServiceData where
  "catalog_data =
     \<lparr>Service = \<lparr>PkgName = ''catalog'', Helpers = [], Service_ExpandedTypes = []\<rparr>,
      Endpoints = [lookup_data, lookup_data], ClientBodyAttributeTypes = [],
      ExpandedTypes = []\<rparr>"

definition catalog_svc :: ServiceExpr where
  "catalog_svc =
     \<lparr>ServiceExpr_Name = ''catalog'',
      HTTPEndpoints = [\<lparr>EndpointExpr_Name = ''show''\<rparr>, \<lparr>EndpointExpr_Name = ''remove''\<rparr>]\<rparr>"

definition catalog_env :: Env where
  "catalog_env =
     example_env [(''catalog'', catalog_data)] [(''show'', lookup_data), (''remove'', lookup_data)]"

subsection \<open>A response body that has a constructor\<close>







section \<open>The loops of \<^verbatim>\<open>clientType\<close>, phase by phase\<close>

text \<open>Each loop appends to the state what its phase definition lists; a loop that looks
  endpoints up returns when every lookup succeeds.\<close>

lemma flagged_Nil: "flagged [] = []"
  by (simp add: flagged_def)

lemma flagged_Cons:
  "flagged (x # xs) = (if ValidateDef x \<noteq> [] then [x] else []) @ flagged xs"
  by (simp add: flagged_def)

lemma flagged_append: "flagged (xs @ ys) = flagged xs @ flagged ys"
  by (simp add: flagged_def)

lemma map_filter_append:
  "List.map_filter f (xs @ ys) = List.map_filter f xs @ List.map_filter f ys"
  by (simp add: List.map_filter_def)

lemma declared_body_eq:
  "declared_body name data s =
     s\<lparr>sections := sections s @ type_decl name data,
       validatedTypes := validatedTypes s @ flagged [data]\<rparr>"
  by (simp add: declared_body_def type_decl_def flagged_def append_section_def)

lemma request_body_eq:
  "request_body data s =
     s\<lparr>sections := sections s @ type_decl ''client-request-body'' data,
       initData := initData s @ List.map_filter Init [data],
       validatedTypes := validatedTypes s @ flagged [data]\<rparr>"
  by (simp add: request_body_def type_decl_def flagged_def append_section_def
      List.map_filter_simps split: option.splits)

lemma request_body_types_eq:
  "map (\<lambda>a. Endpoint env rdata (EndpointExpr_Name a)) as = map Some adatas \<Longrightarrow>
   request_body_types env rdata as s =
     Inr (s\<lparr>sections := sections s
               @ concat (map (type_decl ''client-request-body'') (request_bodies_of adatas)),
             initData := initData s @ List.map_filter Init (request_bodies_of adatas),
             validatedTypes := validatedTypes s @ flagged (request_bodies_of adatas)\<rparr>)"
proof (induction as arbitrary: s adatas)
  case Nil
  then show ?case by (simp add: request_bodies_of_def List.map_filter_simps flagged_Nil)
next
  case (Cons a as)
  then obtain adata rest where ad: "adatas = adata # rest"
    and look: "Endpoint env rdata (EndpointExpr_Name a) = Some adata"
    and rest: "map (\<lambda>a. Endpoint env rdata (EndpointExpr_Name a)) as = map Some rest"
    by (cases adatas) auto
  have bodies: "request_bodies_of adatas =
      List.map_filter (\<lambda>adata. Request_ClientBody (Request (Payload adata))) [adata]
      @ request_bodies_of rest"
    by (simp add: ad request_bodies_of_def List.map_filter_simps split: option.splits)
  show ?case
  proof (cases "Request_ClientBody (Request (Payload adata))")
    case None
    then show ?thesis
      using Cons.IH [OF rest] look
      by (simp add: bodies List.map_filter_simps)
  next
    case (Some data)
    then show ?thesis
      using Cons.IH [OF rest] look
      by (simp add: bodies List.map_filter_simps request_body_eq flagged_Cons flagged_Nil
          split: option.splits)
  qed
qed


lemma response_bodies_eq:
  "response_bodies resps s =
     s\<lparr>sections := sections s
          @ concat (map (type_decl ''client-response-body'')
              (List.map_filter Response_ClientBody resps)),
       validatedTypes := validatedTypes s
          @ flagged (List.map_filter Response_ClientBody resps)\<rparr>"
  by (induction resps arbitrary: s)
    (simp_all add: List.map_filter_simps declared_body_eq flagged_Cons flagged_Nil
      split: option.splits)

lemma error_bodies_eq:
  "error_bodies herrs s =
     s\<lparr>sections := sections s
          @ concat (map (type_decl ''client-error-body'')
              (List.map_filter (\<lambda>herr. Response_ClientBody (Response herr)) herrs)),
       validatedTypes := validatedTypes s
          @ flagged (List.map_filter (\<lambda>herr. Response_ClientBody (Response herr)) herrs)\<rparr>"
  by (induction herrs arbitrary: s)
    (simp_all add: List.map_filter_simps declared_body_eq flagged_Cons flagged_Nil
      split: option.splits)

lemma response_body_types_eq:
  "map (\<lambda>a. Endpoint env rdata (EndpointExpr_Name a)) as = map Some adatas \<Longrightarrow>
   response_body_types env rdata as s =
     Inr (s\<lparr>sections := sections s
               @ concat (map (type_decl ''client-response-body'') (response_bodies_of adatas)),
             validatedTypes := validatedTypes s @ flagged (response_bodies_of adatas)\<rparr>)"
proof (induction as arbitrary: s adatas)
  case Nil
  then show ?case by (simp add: response_bodies_of_def flagged_Nil)
next
  case (Cons a as)
  then obtain adata rest where ad: "adatas = adata # rest"
    and look: "Endpoint env rdata (EndpointExpr_Name a) = Some adata"
    and rest: "map (\<lambda>a. Endpoint env rdata (EndpointExpr_Name a)) as = map Some rest"
    by (cases adatas) auto
  have bodies: "response_bodies_of adatas =
      List.map_filter Response_ClientBody (Responses (Result adata)) @ response_bodies_of rest"
    by (simp add: ad response_bodies_of_def)
  show ?case
    using Cons.IH [OF rest] look
    by (simp add: bodies response_bodies_eq flagged_append)
qed

lemma error_body_types_eq:
  "map (\<lambda>a. Endpoint env rdata (EndpointExpr_Name a)) as = map Some adatas \<Longrightarrow>
   error_body_types env rdata as s =
     Inr (s\<lparr>sections := sections s
               @ concat (map (type_decl ''client-error-body'') (error_bodies_of adatas)),
             validatedTypes := validatedTypes s @ flagged (error_bodies_of adatas)\<rparr>)"
proof (induction as arbitrary: s adatas)
  case Nil
  then show ?case by (simp add: error_bodies_of_def flagged_Nil)
next
  case (Cons a as)
  then obtain adata rest where ad: "adatas = adata # rest"
    and look: "Endpoint env rdata (EndpointExpr_Name a) = Some adata"
    and rest: "map (\<lambda>a. Endpoint env rdata (EndpointExpr_Name a)) as = map Some rest"
    by (cases adatas) auto
  have bodies: "error_bodies_of adatas =
      List.map_filter (\<lambda>herr. Response_ClientBody (Response herr)) (Errors adata)
      @ error_bodies_of rest"
    by (simp add: ad error_bodies_of_def)
  show ?case
    using Cons.IH [OF rest] look
    by (simp add: bodies error_bodies_eq flagged_append)
qed

lemma body_attribute_types_eq:
  "body_attribute_types ds s =
     s\<lparr>sections := sections s @ concat (map (type_decl ''client-body-attributes'') ds),
       validatedTypes := validatedTypes s @ flagged ds\<rparr>"
  by (induction ds arbitrary: s)
    (simp_all add: declared_body_eq flagged_Cons flagged_Nil)

lemma expanded_types_eq:
  "expanded_types ts s = s\<lparr>sections := sections s @ map expanded_decl ts\<rparr>"
  by (induction ts arbitrary: s) (simp_all add: append_section_def expanded_decl_def)

lemma body_constructors_eq:
  "body_constructors inits s = s\<lparr>sections := sections s @ map body_init inits\<rparr>"
  by (induction inits arbitrary: s) (simp_all add: append_section_def body_init_def)

lemma response_results_eq:
  "response_results resps s =
     s\<lparr>sections := sections s @ map result_init (List.map_filter ResultInit resps)\<rparr>"
  by (induction resps arbitrary: s)
    (simp_all add: append_section_def result_init_def List.map_filter_simps
      split: option.splits)

lemma error_results_eq:
  "error_results herrs s =
     s\<lparr>sections := sections s
          @ map error_result_init
              (List.map_filter (\<lambda>herr. ResultInit (Response herr)) herrs)\<rparr>"
  by (induction herrs arbitrary: s)
    (simp_all add: append_section_def error_result_init_def List.map_filter_simps
      split: option.splits)

lemma result_constructors_eq:
  "result_constructors adatas s = s\<lparr>sections := sections s @ result_inits adatas\<rparr>"
  by (induction adatas arbitrary: s)
    (simp_all add: result_inits_def endpoint_result_inits_def response_results_eq
      error_results_eq)

lemma expanded_type_converts_eq:
  "expanded_type_converts ts s = s\<lparr>sections := sections s @ map view_convert ts\<rparr>"
  by (induction ts arbitrary: s) (simp_all add: append_section_def view_convert_def)

lemma transform_helpers_eq:
  "transform_helpers hs s = s\<lparr>sections := sections s @ map transform_helper hs\<rparr>"
  by (induction hs arbitrary: s) (simp_all add: append_section_def transform_helper_def)

lemma validate_methods_eq:
  "validate_methods ds s = s\<lparr>sections := sections s @ map validator ds\<rparr>"
  by (induction ds arbitrary: s) (simp_all add: append_section_def validator_def)

lemma validate_expanded_eq:
  "validate_expanded ts s = s\<lparr>sections := sections s @ map expanded_validator ts\<rparr>"
  by (induction ts arbitrary: s) (simp_all add: append_section_def expanded_validator_def)

lemma later_phases_sections:
  "sections (later_phases rdata s) =
     sections s
     @ concat (map (type_decl ''client-body-attributes'') (ClientBodyAttributeTypes rdata))
     @ map expanded_decl (ExpandedTypes rdata)
     @ map body_init (initData s)
     @ result_inits (Endpoints rdata)
     @ map view_convert (ExpandedTypes rdata)
     @ map transform_helper (Helpers (Service rdata))
     @ map validator (validatedTypes s @ flagged (ClientBodyAttributeTypes rdata))
     @ map expanded_validator (Service_ExpandedTypes (Service rdata))"
  by (simp add: later_phases_def Let_def body_attribute_types_eq expanded_types_eq
      body_constructors_eq result_constructors_eq expanded_type_converts_eq
      transform_helpers_eq validate_methods_eq validate_expanded_eq)

lemma clientType_plan:
  assumes get: "HTTPServices_Get env (ServiceExpr_Name svc) = Some rdata"
    and look: "map (\<lambda>a. Endpoint env rdata (EndpointExpr_Name a)) (HTTPEndpoints svc)
                 = map Some adatas"
  shows "clientType env genpkg svc seen =
     Inr \<lparr>File_Path = client_types_path env (ServiceExpr_Name svc),
          SectionTemplates =
            phase_plan (client_types_header env genpkg (ServiceExpr_Name svc) rdata)
              adatas rdata\<rparr>"
  by (simp add: clientType_def get Let_def request_body_types_eq [OF look]
      response_body_types_eq [OF look] error_body_types_eq [OF look]
      later_phases_sections phase_plan_def type_declarations_def body_inits_def
      validators_def body_descriptors_def flagged_append)

subsection \<open>The templates of the phases\<close>

lemma Source_type_declarations:
  "sec \<in> set (type_declarations adatas rdata) \<Longrightarrow> Source sec = typeDeclT"
  by (auto simp: type_declarations_def type_decl_def expanded_decl_def split: if_splits)

lemma Source_body_inits: "sec \<in> set (body_inits adatas) \<Longrightarrow> Source sec = clientBodyInitT"
  by (auto simp: body_inits_def body_init_def)

lemma Source_result_inits: "sec \<in> set (result_inits adatas) \<Longrightarrow> Source sec = clientTypeInitT"
  by (auto simp: result_inits_def endpoint_result_inits_def result_init_def
      error_result_init_def)

lemma Source_validators:
  "sec \<in> set (validators adatas rdata) \<Longrightarrow>
   Source sec = validateT \<or> Source sec = validateExpandedTypeT"
  by (auto simp: validators_def validator_def expanded_validator_def)

lemma Source_header [simp]: "Source (client_types_header env genpkg name sd) = headerT"
  by (simp add: client_types_header_def Header_def)

lemma Source_view_convert [simp]: "Source (view_convert t) = expandedTypeConvertT"
  by (simp add: view_convert_def)

lemma Source_transform_helper [simp]: "Source (transform_helper h) = transformHelperT"
  by (simp add: transform_helper_def)

lemma phase_plan_split:
  "phase_plan header adatas rdata =
     (header # type_declarations adatas rdata) @ dependents adatas rdata"
  by (simp add: phase_plan_def dependents_def)

lemma dependents_not_declarations:
  "sec \<in> set (dependents adatas rdata) \<Longrightarrow> \<not> is_type_declaration sec"
  by (auto simp: dependents_def is_type_declaration_def
      dest: Source_body_inits Source_result_inits Source_validators)

lemma declarations_not_dependent:
  "sec \<in> set (type_declarations adatas rdata) \<Longrightarrow> \<not> is_dependent sec"
  by (auto simp: is_dependent_def dest: Source_type_declarations)

lemma header_not_dependent: "\<not> is_dependent (client_types_header env genpkg name sd)"
  by (simp add: is_dependent_def)

lemma split_order:
  assumes "\<forall>x\<in>set xs. \<not> Q x" and "\<forall>y\<in>set ys. \<not> P y"
    and "i < length (xs @ ys)" and "j < length (xs @ ys)"
    and "P ((xs @ ys) ! i)" and "Q ((xs @ ys) ! j)"
  shows "i < j"
proof -
  have "i < length xs"
  proof (rule ccontr)
    assume "\<not> i < length xs"
    then have "(xs @ ys) ! i \<in> set ys"
      using assms(3) by (simp add: nth_append)
    then show False using assms(2,5) by blast
  qed
  moreover have "length xs \<le> j"
  proof (rule ccontr)
    assume "\<not> length xs \<le> j"
    then have "(xs @ ys) ! j \<in> set xs"
      by (simp add: nth_append)
    then show False using assms(1,6) by blast
  qed
  ultimately show ?thesis by simp
qed

subsection \<open>A call that returns made every lookup\<close>

lemma request_body_types_Inr:
  "request_body_types env rdata as s = Inr s' \<Longrightarrow>
   \<exists>adatas. map (\<lambda>a. Endpoint env rdata (EndpointExpr_Name a)) as = map Some adatas"
proof (induction as arbitrary: s)
  case Nil
  then show ?case by simp
next
  case (Cons a as)
  then obtain adata where look: "Endpoint env rdata (EndpointExpr_Name a) = Some adata"
    by (cases "Endpoint env rdata (EndpointExpr_Name a)") auto
  with Cons obtain rest where
    "map (\<lambda>a. Endpoint env rdata (EndpointExpr_Name a)) as = map Some rest"
    by fastforce
  with look have
    "map (\<lambda>a. Endpoint env rdata (EndpointExpr_Name a)) (a # as) = map Some (adata # rest)"
    by simp
  then show ?case by blast
qed

lemma clientType_Inr:
  assumes "clientType env genpkg svc seen = Inr f"
  shows "\<exists>rdata adatas.
     HTTPServices_Get env (ServiceExpr_Name svc) = Some rdata \<and>
     map (\<lambda>a. Endpoint env rdata (EndpointExpr_Name a)) (HTTPEndpoints svc) = map Some adatas \<and>
     f = \<lparr>File_Path = client_types_path env (ServiceExpr_Name svc),
          SectionTemplates =
            phase_plan (client_types_header env genpkg (ServiceExpr_Name svc) rdata)
              adatas rdata\<rparr>"
proof -
  from assms obtain rdata where get: "HTTPServices_Get env (ServiceExpr_Name svc) = Some rdata"
    by (cases "HTTPServices_Get env (ServiceExpr_Name svc)") (auto simp: clientType_def)
  from assms get obtain s1 where
    "request_body_types env rdata (HTTPEndpoints svc)
       \<lparr>sections = [client_types_header env genpkg (ServiceExpr_Name svc) rdata],
        initData = [], validatedTypes = []\<rparr> = Inr s1"
    by (auto simp: clientType_def Let_def split: sum.splits)
  then obtain adatas where look:
    "map (\<lambda>a. Endpoint env rdata (EndpointExpr_Name a)) (HTTPEndpoints svc) = map Some adatas"
    using request_body_types_Inr by blast
  from clientType_plan [OF get look, of genpkg seen] assms get look show ?thesis
    by auto
qed

lemma map_Some_the:
  "\<forall>x\<in>set xs. f x \<noteq> None \<Longrightarrow> map f xs = map Some (map (\<lambda>x. the (f x)) xs)"
  by (induction xs) auto

lemma lookups_succeed_returns:
  assumes "lookups_succeed env svc"
  shows "\<exists>rdata adatas.
     HTTPServices_Get env (ServiceExpr_Name svc) = Some rdata \<and>
     map (\<lambda>a. Endpoint env rdata (EndpointExpr_Name a)) (HTTPEndpoints svc) = map Some adatas"
proof -
  from assms obtain rdata where get: "HTTPServices_Get env (ServiceExpr_Name svc) = Some rdata"
    and all: "\<forall>a\<in>set (HTTPEndpoints svc). Endpoint env rdata (EndpointExpr_Name a) \<noteq> None"
    by (auto simp: lookups_succeed_def list_all_iff split: option.splits)
  from map_Some_the [OF all] get show ?thesis by blast
qed

subsection \<open>The example services, evaluated\<close>

lemmas phase_defs =
  phase_plan_def type_declarations_def request_bodies_of_def response_bodies_of_def
  error_bodies_of_def type_decl_def expanded_decl_def body_init_def result_init_def
  error_result_init_def body_inits_def endpoint_result_inits_def result_inits_def
  view_convert_def transform_helper_def flagged_def body_descriptors_def validator_def
  expanded_validator_def validators_def List.map_filter_simps

lemma storage_path: "client_types_path storage_env ''storage'' = ''gen/http/storage/client/types.go''"
  by (simp add: client_types_path_def filepath_Join_def Clean_def storage_env_def example_env_def)

lemma storage_name: "ServiceExpr_Name storage_svc = ''storage''"
  by (simp add: storage_svc_def)

lemma storage_artifact:
  "clientType storage_env genpkg storage_svc seen =
     Inr \<lparr>File_Path = ''gen/http/storage/client/types.go'',
          SectionTemplates =
            phase_plan (client_types_header storage_env genpkg ''storage'' storage_data)
              [upload_data, rename_data] storage_data\<rparr>"
proof -
  have get: "HTTPServices_Get storage_env (ServiceExpr_Name storage_svc) = Some storage_data"
    by (simp add: storage_svc_def storage_env_def example_env_def)
  have look: "map (\<lambda>a. Endpoint storage_env storage_data (EndpointExpr_Name a))
      (HTTPEndpoints storage_svc) = map Some [upload_data, rename_data]"
    by (simp add: storage_svc_def storage_env_def example_env_def)
  show ?thesis
    using clientType_plan [OF get look, of genpkg seen]
    by (simp add: storage_path storage_name)
qed

lemma storage_plan:
  "phase_plan (client_types_header storage_env ''pkg'' ''storage'' storage_data)
              [upload_data, rename_data] storage_data = storage_sections"
  unfolding storage_sections_def
  by (simp add: phase_defs client_types_header_def Header_def storage_header_def
     storage_data_def upload_data_def rename_data_def storage_env_def example_env_def
     upload_body_def rename_body_def upload_ok_body_def bad_request_body_def tag_body_def)

lemma catalog_artifact:
  "clientType catalog_env genpkg catalog_svc seen =
     Inr \<lparr>File_Path = client_types_path catalog_env ''catalog'',
          SectionTemplates =
            phase_plan (client_types_header catalog_env genpkg ''catalog'' catalog_data)
              [lookup_data, lookup_data] catalog_data\<rparr>"
proof -
  have get: "HTTPServices_Get catalog_env (ServiceExpr_Name catalog_svc) = Some catalog_data"
    by (simp add: catalog_svc_def catalog_env_def example_env_def)
  have look: "map (\<lambda>a. Endpoint catalog_env catalog_data (EndpointExpr_Name a))
      (HTTPEndpoints catalog_svc) = map Some [lookup_data, lookup_data]"
    by (simp add: catalog_svc_def catalog_env_def example_env_def)
  show ?thesis
    using clientType_plan [OF get look, of genpkg seen]
    by (simp add: catalog_svc_def)
qed

subsection \<open>Selecting the sections of one phase\<close>

lemma filter_validator_plan:
  assumes "Source header = headerT"
  shows "filter is_validator (phase_plan header adatas rdata) = validators adatas rdata"
proof -
  have decls: "filter is_validator (type_declarations adatas rdata) = []"
    by (auto simp: filter_empty_conv is_validator_def dest: Source_type_declarations)
  have inits: "filter is_validator (body_inits adatas) = []"
    by (auto simp: filter_empty_conv is_validator_def dest: Source_body_inits)
  have results: "filter is_validator (result_inits (Endpoints rdata)) = []"
    by (auto simp: filter_empty_conv is_validator_def dest: Source_result_inits)
  have converts: "filter is_validator (map view_convert (ExpandedTypes rdata)) = []"
    by (auto simp: filter_empty_conv is_validator_def)
  have helpers: "filter is_validator (map transform_helper (Helpers (Service rdata))) = []"
    by (auto simp: filter_empty_conv is_validator_def)
  have vals: "filter is_validator (validators adatas rdata) = validators adatas rdata"
    by (auto simp: filter_id_conv is_validator_def dest: Source_validators)
  have hd: "\<not> is_validator header"
    using assms by (simp add: is_validator_def)
  show ?thesis
    by (simp add: phase_plan_def decls inits results converts helpers vals hd)
qed

lemma filter_view_conversion_plan:
  assumes "Source header = headerT"
  shows "filter is_view_conversion (phase_plan header adatas rdata)
     = map view_convert (ExpandedTypes rdata)"
proof -
  have decls: "filter is_view_conversion (type_declarations adatas rdata) = []"
    by (auto simp: filter_empty_conv is_view_conversion_def dest: Source_type_declarations)
  have inits: "filter is_view_conversion (body_inits adatas) = []"
    by (auto simp: filter_empty_conv is_view_conversion_def dest: Source_body_inits)
  have results: "filter is_view_conversion (result_inits (Endpoints rdata)) = []"
    by (auto simp: filter_empty_conv is_view_conversion_def dest: Source_result_inits)
  have converts: "filter is_view_conversion (map view_convert (ExpandedTypes rdata))
      = map view_convert (ExpandedTypes rdata)"
    by (auto simp: filter_id_conv is_view_conversion_def)
  have helpers: "filter is_view_conversion (map transform_helper (Helpers (Service rdata))) = []"
    by (auto simp: filter_empty_conv is_view_conversion_def)
  have vals: "filter is_view_conversion (validators adatas rdata) = []"
    by (auto simp: filter_empty_conv is_view_conversion_def dest: Source_validators)
  have hd: "\<not> is_view_conversion header"
    using assms by (simp add: is_view_conversion_def)
  show ?thesis
    by (simp add: phase_plan_def decls inits results converts helpers vals hd)
qed

lemma describes_returns:
  assumes "describes env rdata svc"
  shows "clientType env genpkg svc seen =
     Inr \<lparr>File_Path = client_types_path env (ServiceExpr_Name svc),
          SectionTemplates =
            phase_plan (client_types_header env genpkg (ServiceExpr_Name svc) rdata)
              (Endpoints rdata) rdata\<rparr>"
proof -
  from assms have get: "HTTPServices_Get env (ServiceExpr_Name svc) = Some rdata"
    and look: "map (\<lambda>a. Endpoint env rdata (EndpointExpr_Name a)) (HTTPEndpoints svc)
       = map Some (Endpoints rdata)"
    by (simp_all add: describes_def)
  show ?thesis
    by (rule clientType_plan [OF get look])
qed

lemma storage_describes: "describes storage_env storage_data storage_svc"
  by (simp add: describes_def storage_env_def example_env_def storage_svc_def storage_data_def)

lemma storage_file_eq: "clientType storage_env ''pkg'' storage_svc seen = Inr storage_file"
  by (simp add: storage_artifact storage_plan storage_file_def)

lemma storage_sections_eq:
  "artifact_sections (clientType storage_env ''pkg'' storage_svc seen) = storage_sections"
  by (simp add: storage_file_eq artifact_sections_def storage_file_def)

lemma storage_flagged:
  "flagged (request_bodies_of (Endpoints storage_data)
     @ response_bodies_of (Endpoints storage_data)
     @ error_bodies_of (Endpoints storage_data) @ ClientBodyAttributeTypes storage_data)
   = [upload_body, upload_ok_body, tag_body]"
  by (simp add: flagged_def request_bodies_of_def response_bodies_of_def error_bodies_of_def
      List.map_filter_simps storage_data_def upload_data_def rename_data_def
      upload_body_def upload_ok_body_def bad_request_body_def rename_body_def tag_body_def)

lemma storage_validators:
  "filter is_validator storage_sections =
     [validator upload_body, validator upload_ok_body, validator tag_body,
      expanded_validator file_views]"
  by (simp add: storage_sections_def storage_header_def is_validator_def validator_def
      expanded_validator_def)



subsection \<open>The conversion template\<close>

lemma view_function_parts:
  "view_function env t v =
     (''\<newline>'' @ Comment env (view_function_comment t v) @ ''\<newline>'')
     @ view_function_signature t v
     @ ('' {\<newline>  '' @ ToResultCode v @ ''\<newline>  return res\<newline>}\<newline>'')"
  by (simp add: view_function_def view_function_signature_def)

lemma two_elements: "length xs = 2 \<Longrightarrow> xs = [xs ! 0, xs ! 1]"
  by (cases xs; cases "tl xs") auto

subsection \<open>Paths made of plain elements\<close>

lemma split_sep_nonempty: "split_sep cs \<noteq> []"
  by (induction cs) (auto split: list.splits)

lemma split_sep_element:
  "CHR ''/'' \<notin> set e \<Longrightarrow> split_sep (e @ CHR ''/'' # rest) = e # split_sep rest"
  by (induction e) auto

lemma split_sep_last: "CHR ''/'' \<notin> set e \<Longrightarrow> split_sep e = [e]"
  by (induction e) auto

lemma client_types_path_elements:
  assumes g: "path_element g" and n: "path_element n"
  shows "filepath_Join [g, ''http'', n, ''client'', ''types.go'']
     = g @ ''/http/'' @ n @ ''/client/types.go''"
proof -
  define p where "p = join_sep [g, ''http'', n, ''client'', ''types.go'']"
  from g n have plain: "g \<noteq> []" "CHR ''/'' \<notin> set g" "g \<noteq> ''.''" "g \<noteq> ''..''"
    "n \<noteq> []" "CHR ''/'' \<notin> set n" "n \<noteq> ''.''" "n \<noteq> ''..''"
    by (simp_all add: path_element_def)
  have p: "p = g @ CHR ''/'' # (''http'' @ CHR ''/'' # (n @ CHR ''/'' # (''client'' @ CHR ''/'' # ''types.go'')))"
    by (simp add: p_def)
  have join: "filepath_Join [g, ''http'', n, ''client'', ''types.go''] = Clean p"
    using plain(1) by (simp add: filepath_Join_def p_def)
  have "split_sep p = g # split_sep (''http'' @ CHR ''/'' # (n @ CHR ''/'' # (''client'' @ CHR ''/'' # ''types.go'')))"
    unfolding p using plain(2) by (rule split_sep_element)
  also have "split_sep (''http'' @ CHR ''/'' # (n @ CHR ''/'' # (''client'' @ CHR ''/'' # ''types.go'')))
      = ''http'' # split_sep (n @ CHR ''/'' # (''client'' @ CHR ''/'' # ''types.go''))"
    by (rule split_sep_element) simp
  also have "split_sep (n @ CHR ''/'' # (''client'' @ CHR ''/'' # ''types.go''))
      = n # split_sep (''client'' @ CHR ''/'' # ''types.go'')"
    using plain(6) by (rule split_sep_element)
  also have "split_sep (''client'' @ CHR ''/'' # ''types.go'') = [''client'', ''types.go'']"
    by simp
  finally have split: "split_sep p = [g, ''http'', n, ''client'', ''types.go'']" .
  have nonempty: "(p = []) = False"
    using plain(1) by (simp add: p)
  have rooted: "(hd p = CHR ''/'') = False"
    using plain(1,2) by (cases g) (auto simp: p)
  have clean: "clean_elems False [] [g, ''http'', n, ''client'', ''types.go'']
      = [g, ''http'', n, ''client'', ''types.go'']"
    using plain by simp
  have joined: "join_sep (clean_elems False [] (split_sep p)) = p"
    by (simp only: split clean, simp only: p_def)
  have "Clean p = p"
    by (simp only: Clean_def Let_def rooted joined nonempty if_False)
  with join show ?thesis by (simp add: p)
qed

subsection \<open>Paths and the traversal of the services\<close>

lemma clientType_path:
  "clientType env genpkg svc seen = Inr f \<Longrightarrow>
   File_Path f = client_types_path env (ServiceExpr_Name svc)"
  by (auto dest: clientType_Inr)

lemma lookups_succeed_file:
  assumes "lookups_succeed env svc"
  shows "\<exists>rdata rest.
     HTTPServices_Get env (ServiceExpr_Name svc) = Some rdata \<and>
     clientType env genpkg svc seen =
       Inr \<lparr>File_Path = client_types_path env (ServiceExpr_Name svc),
            SectionTemplates =
              client_types_header env genpkg (ServiceExpr_Name svc) rdata # rest\<rparr>"
proof -
  from lookups_succeed_returns [OF assms] obtain rdata adatas where
    get: "HTTPServices_Get env (ServiceExpr_Name svc) = Some rdata"
    and look: "map (\<lambda>a. Endpoint env rdata (EndpointExpr_Name a)) (HTTPEndpoints svc)
       = map Some adatas"
    by blast
  from clientType_plan [OF get look, of genpkg seen] get show ?thesis
    by (simp add: phase_plan_def)
qed

lemma client_type_files_all:
  assumes "list_all (lookups_succeed env) svcs"
  shows "\<exists>fw. client_type_files env genpkg seen svcs = Inr fw \<and>
     map Inr fw = map (\<lambda>svc. clientType env genpkg svc seen) svcs"
  using assms
proof (induction svcs)
  case Nil
  then show ?case by simp
next
  case (Cons svc svcs)
  then obtain fw where rest: "client_type_files env genpkg seen svcs = Inr fw"
    and files: "map Inr fw = map (\<lambda>svc. clientType env genpkg svc seen) svcs"
    by auto
  from Cons.prems have "lookups_succeed env svc" by simp
  from lookups_succeed_file [OF this, of genpkg seen] obtain f where
    "clientType env genpkg svc seen = Inr f"
    by blast
  with rest files show ?case by simp
qed

lemma health_file_eq: "clientType storage_env ''pkg'' health_svc seen = Inr health_file"
proof -
  have get: "HTTPServices_Get storage_env (ServiceExpr_Name health_svc) = Some health_data"
    by (simp add: health_svc_def storage_env_def example_env_def)
  have look: "map (\<lambda>a. Endpoint storage_env health_data (EndpointExpr_Name a))
      (HTTPEndpoints health_svc) = map Some []"
    by (simp add: health_svc_def)
  have path: "client_types_path storage_env ''health'' = ''gen/http/health/client/types.go''"
    by (simp add: client_types_path_def filepath_Join_def Clean_def storage_env_def
        example_env_def)
  have name: "ServiceExpr_Name health_svc = ''health''"
    by (simp add: health_svc_def)
  have plan: "phase_plan (client_types_header storage_env ''pkg'' ''health'' health_data)
      [] health_data = SectionTemplates health_file"
    by (simp add: phase_defs client_types_header_def Header_def health_file_def
        health_data_def storage_env_def example_env_def)
  show ?thesis
    using clientType_plan [OF get look, of "''pkg''" seen]
    by (simp add: name path plan health_file_def)
qed

lemma storage_root_lookups: "list_all (lookups_succeed storage_env) (HTTPServices storage_root)"
  by (simp add: storage_root_def lookups_succeed_def storage_env_def example_env_def
      storage_svc_def health_svc_def)

section \<open>The claims\<close>

text \<open>
  C1. The claim: no two type declaration sections of a service's artifact share a type
  name, because each declaration first claims its name in the map of seen names and is
  omitted when the name is taken. \<^verbatim>\<open>clientType\<close> receives the map and its comment says
  that it prevents duplicate generation, but no loop reads or writes it. In the catalog
  service the two endpoints have error responses with one body type; the artifact
  declares the type twice, from the empty map and from a map that holds the name already.
\<close>

theorem clientType_repeats_declaration:
  "declared_type_names
     (artifact_sections (clientType catalog_env ''pkg'' catalog_svc Map.empty))
   = [''NotFoundResponseBody'', ''NotFoundResponseBody''] \<and>
   declared_type_names
     (artifact_sections
        (clientType catalog_env ''pkg'' catalog_svc [''NotFoundResponseBody'' \<mapsto> ()]))
   = [''NotFoundResponseBody'', ''NotFoundResponseBody'']"
  by (simp add: catalog_artifact artifact_sections_def declared_type_names_def
      is_type_declaration_def phase_defs client_types_header_def Header_def
      catalog_data_def lookup_data_def not_found_body_def)

text \<open>
  C2, as stated: a payload field that is required and has no default is held by value.
  The resolver of the spec makes every field of aggregate kind optional, whatever its
  context, so the statement fails for a required aggregate payload field.
\<close>

theorem pointer_policy_aggregate_payload:
  "PointerPolicyResolver True False aggregate payload_field \<noteq> by_value"
  by simp

text \<open>
  C2, amended: for a field of primitive kind, a payload field that is required and has no
  default is held by value, and one that is neither required nor defaulted is optional; a
  result field is optional exactly when it is not required or has a default; a response
  header field that is not required and has a default is held by value. A body field is
  optional for every kind, requirement and default, and a field of aggregate kind is
  optional in every context.
\<close>

theorem pointer_policy:
  "PointerPolicyResolver True False primitive payload_field = by_value \<and>
   PointerPolicyResolver False False primitive payload_field = optional \<and>
   (PointerPolicyResolver required hasDefault primitive result_field = optional)
     = (\<not> required \<or> hasDefault) \<and>
   PointerPolicyResolver required hasDefault kind body_field = optional \<and>
   PointerPolicyResolver False True primitive header_response = by_value \<and>
   PointerPolicyResolver required hasDefault aggregate ctx = optional"
  by (cases kind) simp_all

theorem pointer_policy_witness:
  "PointerPolicyResolver True True primitive result_field = optional \<and>
   PointerPolicyResolver True True primitive body_field = optional \<and>
   PointerPolicyResolver True True aggregate header_response = optional"
  using pointer_policy [of True True primitive header_response]
  by simp

text \<open>
  C3. When the service data describe the service, the call returns, and the sections of
  the artifact are, in this order: the header; the type declarations of the request
  bodies (endpoint by endpoint), of the response bodies (per endpoint, per response), of
  the error bodies (per endpoint, per error), of the body attribute types and of the
  expanded types; the body constructors, then the result constructors (per endpoint, the
  responses' and then the errors'); the view conversions; the transform helpers; the
  validators of the flagged bodies and then those of the expanded types. A descriptor
  without a definition, constructor or validation code contributes no section to the
  phase in question.
\<close>

theorem clientType_phase_order:
  assumes "describes env rdata svc"
  shows "\<exists>f. clientType env genpkg svc seen = Inr f \<and>
     SectionTemplates f =
       client_types_header env genpkg (ServiceExpr_Name svc) rdata
       # (concat (map (type_decl ''client-request-body'') (request_bodies_of (Endpoints rdata)))
          @ concat (map (type_decl ''client-response-body'') (response_bodies_of (Endpoints rdata)))
          @ concat (map (type_decl ''client-error-body'') (error_bodies_of (Endpoints rdata)))
          @ concat (map (type_decl ''client-body-attributes'') (ClientBodyAttributeTypes rdata))
          @ map expanded_decl (ExpandedTypes rdata))
       @ (map body_init (List.map_filter Init (request_bodies_of (Endpoints rdata)))
          @ concat (map endpoint_result_inits (Endpoints rdata)))
       @ map view_convert (ExpandedTypes rdata)
       @ map transform_helper (Helpers (Service rdata))
       @ (map validator
            (flagged (request_bodies_of (Endpoints rdata) @ response_bodies_of (Endpoints rdata)
               @ error_bodies_of (Endpoints rdata) @ ClientBodyAttributeTypes rdata))
          @ map expanded_validator (Service_ExpandedTypes (Service rdata)))"
  by (simp add: describes_returns [OF assms] phase_plan_def type_declarations_def
      body_inits_def result_inits_def validators_def body_descriptors_def)

theorem clientType_phase_order_witness:
  "describes storage_env storage_data storage_svc \<and>
   artifact_sections (clientType storage_env ''pkg'' storage_svc Map.empty) = storage_sections"
  using clientType_phase_order [of storage_env storage_data storage_svc "''pkg''" Map.empty]
  by (simp add: storage_describes storage_file_eq artifact_sections_def storage_file_def)

text \<open>
  C4. In every artifact a type declaration stands before every constructor, view
  conversion, transform helper and validator, whichever types the latter refer to.
\<close>

theorem declarations_precede_dependents:
  assumes "clientType env genpkg svc seen = Inr f"
    and "i < length (SectionTemplates f)" and "j < length (SectionTemplates f)"
    and "is_type_declaration (SectionTemplates f ! i)"
    and "is_dependent (SectionTemplates f ! j)"
  shows "i < j"
proof -
  from clientType_Inr [OF assms(1)] obtain rdata adatas where
    secs: "SectionTemplates f =
      (client_types_header env genpkg (ServiceExpr_Name svc) rdata
         # type_declarations adatas rdata) @ dependents adatas rdata"
    by (auto simp: phase_plan_split)
  have before: "\<forall>sec\<in>set (client_types_header env genpkg (ServiceExpr_Name svc) rdata
      # type_declarations adatas rdata). \<not> is_dependent sec"
    using header_not_dependent declarations_not_dependent by auto
  have after: "\<forall>sec\<in>set (dependents adatas rdata). \<not> is_type_declaration sec"
    using dependents_not_declarations by blast
  show ?thesis
    using split_order [OF before after] assms(2-5) unfolding secs by blast
qed

theorem declarations_precede_dependents_witness:
  "clientType storage_env ''pkg'' storage_svc Map.empty = Inr storage_file \<and>
   is_type_declaration (SectionTemplates storage_file ! 5) \<and>
   is_dependent (SectionTemplates storage_file ! 6) \<and> (5::nat) < 6"
  using declarations_precede_dependents
    [of storage_env "''pkg''" storage_svc Map.empty storage_file 5 6]
  by (simp add: storage_file_eq storage_file_def storage_sections_def
      is_type_declaration_def is_dependent_def)

text \<open>
  C5, as stated: after the validators of the flagged body descriptors comes one validator
  per expanded type that requires validation, and none for an expanded type that requires
  none. In the storage service the expanded type has no validation code, and the artifact
  ends with its validator all the same.
\<close>

theorem validator_without_constraints:
  "Validate file_views = [] \<and>
   expanded_validator file_views
     \<in> set (artifact_sections (clientType storage_env ''pkg'' storage_svc Map.empty)) \<and>
   filter is_validator (artifact_sections (clientType storage_env ''pkg'' storage_svc Map.empty))
     \<noteq> validators_as_specified (Endpoints storage_data) storage_data"
proof -
  have none: "Validate file_views = []"
    by (simp add: file_views_def)
  have expanded: "Service_ExpandedTypes (Service storage_data) = [file_views]"
    by (simp add: storage_data_def)
  have specified: "validators_as_specified (Endpoints storage_data) storage_data
      = [validator upload_body, validator upload_ok_body, validator tag_body]"
    by (simp add: validators_as_specified_def body_descriptors_def storage_flagged expanded none)
  have emitted: "expanded_validator file_views \<in> set storage_sections"
    by (simp add: storage_sections_def expanded_validator_def)
  show ?thesis
    using none emitted
    by (simp add: storage_sections_eq storage_validators specified)
qed

text \<open>
  C5, amended: the validator sections are one validator per body descriptor whose
  validation code is not empty, in the order of the type declarations (request bodies,
  response bodies, error bodies, body attribute types), followed by one validator per
  expanded type of the service, whether or not the type has validation code.
\<close>

theorem validator_sections:
  assumes "describes env rdata svc"
  shows "\<exists>f. clientType env genpkg svc seen = Inr f \<and>
     filter is_validator (SectionTemplates f) =
       map validator
         (flagged (request_bodies_of (Endpoints rdata) @ response_bodies_of (Endpoints rdata)
            @ error_bodies_of (Endpoints rdata) @ ClientBodyAttributeTypes rdata))
       @ map expanded_validator (Service_ExpandedTypes (Service rdata))"
  by (simp add: describes_returns [OF assms] filter_validator_plan validators_def
      body_descriptors_def)

theorem validator_sections_witness:
  "describes storage_env storage_data storage_svc \<and>
   filter is_validator (artifact_sections (clientType storage_env ''pkg'' storage_svc Map.empty))
     = [validator upload_body, validator upload_ok_body, validator tag_body,
        expanded_validator file_views]"
proof -
  have expanded: "Service_ExpandedTypes (Service storage_data) = [file_views]"
    by (simp add: storage_data_def)
  show ?thesis
    using validator_sections [OF storage_describes, of "''pkg''" Map.empty]
    by (auto simp: storage_describes storage_flagged expanded artifact_sections_def)
qed




text \<open>
  C7. The artifact has one view conversion section per expanded type of the service
  data, in their order, each with its expanded type as data; and the text the conversion
  template writes for an expanded type with N views is N functions and a final newline,
  the n-th function written for the n-th view: its signature has the view's receiver and
  function name and the result type of the expanded type.
\<close>

theorem view_conversions:
  assumes "describes env rdata svc"
  shows "(\<exists>f. clientType env genpkg svc seen = Inr f \<and>
            filter is_view_conversion (SectionTemplates f)
              = map view_convert (ExpandedTypes rdata)) \<and>
         (\<forall>t\<in>set (ExpandedTypes rdata).
            \<exists>fs. render_expandedTypeConvertT env t = concat fs @ ''\<newline>'' \<and>
                 length fs = length (Views t) \<and>
                 (\<forall>n<length (Views t).
                    fs ! n = view_function env t (Views t ! n) \<and>
                    (\<exists>before after.
                       fs ! n = before @ view_function_signature t (Views t ! n) @ after)))"
proof -
  have render: "\<exists>fs. render_expandedTypeConvertT env t = concat fs @ ''\<newline>'' \<and>
      length fs = length (Views t) \<and>
      (\<forall>n<length (Views t).
         fs ! n = view_function env t (Views t ! n) \<and>
         (\<exists>before after. fs ! n = before @ view_function_signature t (Views t ! n) @ after))"
    for t
  proof (intro exI conjI allI impI)
    show "render_expandedTypeConvertT env t
        = concat (map (view_function env t) (Views t)) @ ''\<newline>''"
      by (simp add: render_expandedTypeConvertT_def)
    show "length (map (view_function env t) (Views t)) = length (Views t)"
      by simp
    fix n assume n: "n < length (Views t)"
    then show "map (view_function env t) (Views t) ! n = view_function env t (Views t ! n)"
      by simp
    show "map (view_function env t) (Views t) ! n
        = (''\<newline>'' @ Comment env (view_function_comment t (Views t ! n)) @ ''\<newline>'')
          @ view_function_signature t (Views t ! n)
          @ ('' {\<newline>  '' @ ToResultCode (Views t ! n) @ ''\<newline>  return res\<newline>}\<newline>'')"
      using n by (simp only: nth_map view_function_parts)
  qed
  show ?thesis
    using render
    by (simp add: describes_returns [OF assms] filter_view_conversion_plan)
qed

theorem view_conversions_witness:
  "describes storage_env storage_data storage_svc \<and>
   filter is_view_conversion
     (artifact_sections (clientType storage_env ''pkg'' storage_svc Map.empty))
     = [view_convert file_views] \<and>
   length (Views file_views) = 2 \<and>
   render_expandedTypeConvertT storage_env file_views =
     ''\<newline>// ToFile converts File type to File result type using the default view.\<newline>func (e *FileView) ToFile() *storage.File {\<newline>  res := newFile(e)\<newline>  return res\<newline>}\<newline>\<newline>// ToFileTiny converts File type to File result type using the tiny view.\<newline>func (e *FileView) ToFileTiny() *storage.File {\<newline>  res := newFileTiny(e)\<newline>  return res\<newline>}\<newline>\<newline>''"
proof -
  have expanded: "ExpandedTypes storage_data = [file_views]"
    by (simp add: storage_data_def)
  have views: "length (Views file_views) = 2"
    by (simp add: file_views_def)
  note inst = view_conversions [OF storage_describes, of "''pkg''" Map.empty]
  from inst have secs: "filter is_view_conversion
      (artifact_sections (clientType storage_env ''pkg'' storage_svc Map.empty))
      = [view_convert file_views]"
    by (auto simp: expanded artifact_sections_def)
  from inst obtain fs where
    rendered: "render_expandedTypeConvertT storage_env file_views = concat fs @ ''\<newline>''"
    and len: "length fs = 2"
    and nth: "\<forall>n<2. fs ! n = view_function storage_env file_views (Views file_views ! n)"
    by (auto simp: expanded views)
  have "fs = [fs ! 0, fs ! 1]"
    using len by (rule two_elements)
  also have "fs ! 0 = view_function storage_env file_views (Views file_views ! 0)"
    using nth by simp
  also have "fs ! 1 = view_function storage_env file_views (Views file_views ! 1)"
    using nth by simp
  finally have "fs = [view_function storage_env file_views (Views file_views ! 0),
      view_function storage_env file_views (Views file_views ! 1)]" .
  then have texts: "fs =
     [''\<newline>// ToFile converts File type to File result type using the default view.\<newline>func (e *FileView) ToFile() *storage.File {\<newline>  res := newFile(e)\<newline>  return res\<newline>}\<newline>'',
      ''\<newline>// ToFileTiny converts File type to File result type using the tiny view.\<newline>func (e *FileView) ToFileTiny() *storage.File {\<newline>  res := newFileTiny(e)\<newline>  return res\<newline>}\<newline>'']"
    by (simp add: view_function_def view_function_comment_def file_views_def
        storage_env_def example_env_def)
  have "render_expandedTypeConvertT storage_env file_views =
     ''\<newline>// ToFile converts File type to File result type using the default view.\<newline>func (e *FileView) ToFile() *storage.File {\<newline>  res := newFile(e)\<newline>  return res\<newline>}\<newline>\<newline>// ToFileTiny converts File type to File result type using the tiny view.\<newline>func (e *FileView) ToFileTiny() *storage.File {\<newline>  res := newFileTiny(e)\<newline>  return res\<newline>}\<newline>\<newline>''"
    unfolding rendered texts by simp
  with secs views storage_describes show ?thesis by simp
qed

text \<open>
  C8. The path of a service's file is \<^verbatim>\<open>filepath.Join\<close> of the generation directory,
  \<^verbatim>\<open>http\<close>, the snake case of the service name, \<^verbatim>\<open>client\<close> and \<^verbatim>\<open>types.go\<close>. When
  the generation directory and the snake-cased name are plain path elements, it is the
  generation directory, \<^verbatim>\<open>/http/\<close>, the snake-cased name and \<^verbatim>\<open>/client/types.go\<close>.
  It depends on the service by its name only: any other call for a service of that name,
  whatever its package path, endpoints and map of seen names, gives the same path.
\<close>

theorem client_types_file_path:
  assumes "clientType env genpkg svc seen = Inr f"
  shows "File_Path f =
           filepath_Join
             [Gendir env, ''http'', SnakeCase env (ServiceExpr_Name svc), ''client'', ''types.go''] \<and>
         (path_element (Gendir env) \<and> path_element (SnakeCase env (ServiceExpr_Name svc)) \<longrightarrow>
            File_Path f =
              Gendir env @ ''/http/'' @ SnakeCase env (ServiceExpr_Name svc) @ ''/client/types.go'') \<and>
         (\<forall>genpkg' svc' seen' f'.
            clientType env genpkg' svc' seen' = Inr f' \<and>
            ServiceExpr_Name svc' = ServiceExpr_Name svc \<longrightarrow>
            File_Path f' = File_Path f)"
proof -
  have path: "File_Path f = client_types_path env (ServiceExpr_Name svc)"
    using assms by (rule clientType_path)
  have same: "File_Path f' = File_Path f"
    if "clientType env genpkg' svc' seen' = Inr f'"
      and "ServiceExpr_Name svc' = ServiceExpr_Name svc"
    for genpkg' svc' seen' f'
    using clientType_path [OF that(1)] that(2) path by simp
  show ?thesis
    using path same client_types_path_elements
    by (auto simp: client_types_path_def)
qed

theorem client_types_file_path_witness:
  "clientType storage_env ''pkg'' storage_svc Map.empty = Inr storage_file \<and>
   path_element (Gendir storage_env) \<and>
   path_element (SnakeCase storage_env (ServiceExpr_Name storage_svc)) \<and>
   File_Path storage_file = ''gen/http/storage/client/types.go'' \<and>
   Gendir storage_env @ ''/http/'' @ SnakeCase storage_env (ServiceExpr_Name storage_svc)
     @ ''/client/types.go'' = ''gen/http/storage/client/types.go''"
proof -
  have root: "path_element (Gendir storage_env)"
    by (simp add: path_element_def storage_env_def example_env_def)
  have slug: "path_element (SnakeCase storage_env (ServiceExpr_Name storage_svc))"
    by (simp add: path_element_def storage_env_def example_env_def storage_name)
  have path: "File_Path storage_file = ''gen/http/storage/client/types.go''"
    by (simp add: storage_file_def)
  have "File_Path storage_file =
      Gendir storage_env @ ''/http/'' @ SnakeCase storage_env (ServiceExpr_Name storage_svc)
      @ ''/client/types.go''"
    using client_types_file_path [OF storage_file_eq [of Map.empty]] root slug by blast
  with root slug path storage_file_eq [of Map.empty] show ?thesis by simp
qed

text \<open>
  C10. When no lookup returns \<^verbatim>\<open>nil\<close>, \<^verbatim>\<open>ClientTypeFiles\<close> returns as many files as
  the root has services; the n-th file is the file of the n-th service, and its first
  section is the header of that service, whatever else the service has. The witness is a
  root of two services, the second with no endpoints, types or helpers: its file is the
  header alone.
\<close>

theorem ClientTypeFiles_one_file_per_service:
  assumes "list_all (lookups_succeed env) (HTTPServices root)"
  shows "\<exists>fw. ClientTypeFiles env genpkg root = Inr fw \<and>
     length fw = length (HTTPServices root) \<and>
     (\<forall>n<length (HTTPServices root).
        clientType env genpkg (HTTPServices root ! n) Map.empty = Inr (fw ! n) \<and>
        (\<exists>rdata rest.
           HTTPServices_Get env (ServiceExpr_Name (HTTPServices root ! n)) = Some rdata \<and>
           SectionTemplates (fw ! n) =
             client_types_header env genpkg (ServiceExpr_Name (HTTPServices root ! n)) rdata
             # rest))"
proof -
  from client_type_files_all [OF assms, of genpkg Map.empty] obtain fw where
    run: "ClientTypeFiles env genpkg root = Inr fw"
    and files: "map Inr fw = map (\<lambda>svc. clientType env genpkg svc Map.empty) (HTTPServices root)"
    by (auto simp: ClientTypeFiles_def)
  from files have len: "length fw = length (HTTPServices root)"
    by (metis length_map)
  have each: "clientType env genpkg (HTTPServices root ! n) Map.empty = Inr (fw ! n) \<and>
      (\<exists>rdata rest.
         HTTPServices_Get env (ServiceExpr_Name (HTTPServices root ! n)) = Some rdata \<and>
         SectionTemplates (fw ! n) =
           client_types_header env genpkg (ServiceExpr_Name (HTTPServices root ! n)) rdata
           # rest)"
    if n: "n < length (HTTPServices root)" for n
  proof -
    have "map Inr fw ! n = map (\<lambda>svc. clientType env genpkg svc Map.empty) (HTTPServices root) ! n"
      by (simp only: files)
    with n len have found: "clientType env genpkg (HTTPServices root ! n) Map.empty = Inr (fw ! n)"
      by simp
    from assms n have "lookups_succeed env (HTTPServices root ! n)"
      by (simp add: list_all_length)
    from lookups_succeed_file [OF this, of genpkg Map.empty] found show ?thesis
      by auto
  qed
  from run len each show ?thesis by blast
qed

theorem ClientTypeFiles_one_file_per_service_witness:
  "list_all (lookups_succeed storage_env) (HTTPServices storage_root) \<and>
   ClientTypeFiles storage_env ''pkg'' storage_root = Inr [storage_file, health_file]"
proof -
  from ClientTypeFiles_one_file_per_service [OF storage_root_lookups, of "''pkg''"]
  obtain fw where run: "ClientTypeFiles storage_env ''pkg'' storage_root = Inr fw"
    and len: "length fw = length (HTTPServices storage_root)"
    and each: "\<forall>n<length (HTTPServices storage_root).
      clientType storage_env ''pkg'' (HTTPServices storage_root ! n) Map.empty = Inr (fw ! n)"
    by blast
  have two: "length fw = 2"
    using len by (simp add: storage_root_def)
  have services: "HTTPServices storage_root ! 0 = storage_svc"
    "HTTPServices storage_root ! 1 = health_svc" "length (HTTPServices storage_root) = 2"
    by (simp_all add: storage_root_def)
  from each [rule_format, of 0] each [rule_format, of 1]
  have "clientType storage_env ''pkg'' storage_svc Map.empty = Inr (fw ! 0)"
    and "clientType storage_env ''pkg'' health_svc Map.empty = Inr (fw ! 1)"
    by (simp_all only: services)
  then have "fw ! 0 = storage_file" and "fw ! 1 = health_file"
    by (simp_all add: storage_file_eq health_file_eq)
  with two_elements [OF two] have "fw = [storage_file, health_file]"
    by simp
  with run storage_root_lookups show ?thesis by simp
qed



end
